theory Spec2Isabelle
  imports Main
begin

section \<open>The insecure chttp2 client connector and channel factory\<close>

text \<open>
  A shallow embedding of
  \<^verbatim>\<open>src/core/ext/transport/chttp2/client/insecure/channel_create.c\<close>.
  Every C function of the file is a HOL function on an explicit \<open>world\<close>: the memory the
  file reads and writes (connectors, result slots, closures, handshake managers) and the
  ordered list of the calls it makes to its collaborators. An assertion failure
  (\<^verbatim>\<open>GPR_ASSERT\<close>) and an access through a pointer that holds no object are values
  of the type \<open>failure\<close>.
\<close>

subsection \<open>Pointers, errors, slices\<close>

type_synonym ptr = nat

definition NULL :: ptr where
  "NULL = 0"

text \<open>
  \<^verbatim>\<open>grpc_error *\<close>; the macro \<^verbatim>\<open>GRPC_ERROR_NONE\<close> of error.h is the null
  pointer (the spec: an error value, empty = success).
\<close>

type_synonym grpc_error = ptr

definition GRPC_ERROR_NONE :: grpc_error where
  "GRPC_ERROR_NONE = NULL"

text \<open>A deadline, \<^verbatim>\<open>gpr_timespec\<close>: the file only passes it on.\<close>

type_synonym gpr_timespec = int

type_synonym grpc_slice = string

text \<open>\<^verbatim>\<open>GRPC_SLICE_IS_EMPTY(slice)\<close>: the slice has length zero.\<close>

definition GRPC_SLICE_IS_EMPTY :: "grpc_slice \<Rightarrow> bool" where
  "GRPC_SLICE_IS_EMPTY s = (length s = 0)"

datatype failure = AssertionFailed | InvalidAccess

subsection \<open>Closures and the connector\<close>

text \<open>The functions of this file that are installed as callbacks, and foreign ones.\<close>

datatype callback =
    CB_connected
  | CB_on_initial_connect_string_sent
  | CB_on_handshake_done
  | CB_foreign nat

text \<open>\<^verbatim>\<open>grpc_closure\<close>: a callback (none when the function pointer is null) and its argument.\<close>

record grpc_closure =
  cb :: "callback option"
  cb_arg :: ptr

text \<open>The fields of \<^verbatim>\<open>grpc_connect_in_args\<close> that the file reads.\<close>

record grpc_connect_in_args =
  interested_parties :: ptr
  addr :: ptr
  deadline :: gpr_timespec
  channel_args :: ptr
  initial_connect_string :: grpc_slice

text \<open>\<^verbatim>\<open>grpc_connect_out_args\<close>: the result slot of one attempt.\<close>

record grpc_connect_out_args =
  out_transport :: ptr
  out_channel_args :: ptr

datatype vtable = Connector_vtable

text \<open>The struct \<^verbatim>\<open>connector\<close> (lines 58-73), field by field.\<close>

record connector =
  c_base_vtable :: "vtable option"
  c_refs :: int
  c_notify :: ptr
  c_args :: grpc_connect_in_args
  c_result :: ptr
  c_initial_string_sent :: grpc_closure
  c_initial_string_buffer :: "grpc_slice list"
  c_tcp :: ptr
  c_connected :: grpc_closure
  c_handshake_mgr :: ptr

text \<open>
  Modelled from the spec: a Handshaker; the HTTP CONNECT variant "is configured with a
  proxy address and the logical target's name" (http_connect_handshaker.h is not part of
  the file).
\<close>

datatype handshaker = HttpConnectHandshaker string string

text \<open>A pointer to a closure: one owned by a caller, or one of the two embedded in a connector.\<close>

datatype closure_ref =
    ClosureAt ptr
  | ConnectedOf ptr
  | InitialStringSentOf ptr

text \<open>The field of \<^verbatim>\<open>grpc_subchannel_args\<close> that the file reads, and the rest as an opaque pointer.\<close>

record grpc_subchannel_args =
  server_name :: string
  sub_rest :: ptr

text \<open>The calls the file makes to its collaborators, with their arguments.\<close>

datatype effect =
    GprRef ptr
  | GprUnref ptr
  | HandshakeManagerDestroy ptr
  | GprFree ptr
  | ChannelArgsDestroy ptr
  | CreateChttp2Transport ptr ptr int
  | Chttp2TransportStartReading ptr ptr
  | ExecCtxSched ptr grpc_error
  | ErrorRef grpc_error
  | EndpointWrite ptr "grpc_slice list" closure_ref
  | HandshakeManagerDoHandshake ptr ptr ptr gpr_timespec ptr callback ptr
  | TcpClientConnect closure_ref ptr ptr ptr ptr gpr_timespec
  | HandshakeManagerCreate ptr
  | HttpConnectHandshakerCreate string string
  | HandshakeManagerAdd ptr handshaker
  | GprFreeString string
  | SubchannelCreate ptr grpc_subchannel_args

record world =
  connectors :: "ptr \<Rightarrow> connector option"
  out_slots :: "ptr \<Rightarrow> grpc_connect_out_args option"
  closures :: "ptr \<Rightarrow> grpc_closure option"
  managers :: "ptr \<Rightarrow> handshaker list option"
  trace :: "effect list"

text \<open>Reading through a pointer: the null pointer holds no object.\<close>

definition load :: "(ptr \<Rightarrow> 'a option) \<Rightarrow> ptr \<Rightarrow> 'a option" where
  "load m p = (if p = NULL then None else m p)"

definition call :: "effect \<Rightarrow> world \<Rightarrow> world" where
  "call e w = w\<lparr>trace := trace w @ [e]\<rparr>"

definition put_connector :: "ptr \<Rightarrow> connector \<Rightarrow> world \<Rightarrow> world" where
  "put_connector p c w = w\<lparr>connectors := (connectors w)(p \<mapsto> c)\<rparr>"

subsection \<open>Reference counting (lines 75-87)\<close>

text \<open>
  \<^verbatim>\<open>gpr_ref\<close> adds one to the count; \<^verbatim>\<open>gpr_unref\<close> subtracts one and returns
  non-zero exactly when the count was 1 before, that is, when it reaches zero.
\<close>

definition connector_ref :: "world \<Rightarrow> ptr \<Rightarrow> failure + world" where
  "connector_ref w con =
     (case load (connectors w) con of
        None \<Rightarrow> Inl InvalidAccess
      | Some c \<Rightarrow>
          Inr (call (GprRef con) (put_connector con (c\<lparr>c_refs := c_refs c + 1\<rparr>) w)))"

definition connector_unref :: "world \<Rightarrow> ptr \<Rightarrow> failure + world" where
  "connector_unref w con =
     (case load (connectors w) con of
        None \<Rightarrow> Inl InvalidAccess
      | Some c \<Rightarrow>
          (let w1 = call (GprUnref con) (put_connector con (c\<lparr>c_refs := c_refs c - 1\<rparr>) w)
           in if c_refs c = 1
              then
                (let w2 = call (HandshakeManagerDestroy (c_handshake_mgr c))
                            (w1\<lparr>managers := (managers w1)(c_handshake_mgr c := None)\<rparr>);
                     w3 = call (GprFree con) (w2\<lparr>connectors := (connectors w2)(con := None)\<rparr>)
                 in Inr w3)
              else Inr w1))"

subsection \<open>The callbacks (lines 89-139)\<close>

definition on_initial_connect_string_sent :: "world \<Rightarrow> ptr \<Rightarrow> grpc_error \<Rightarrow> failure + world" where
  "on_initial_connect_string_sent w arg error = connector_unref w arg"

text \<open>
  \<open>mk\<close> is the result of the collaborator \<^verbatim>\<open>grpc_create_chttp2_transport\<close> for the
  channel args, the endpoint and the client flag it is given.
\<close>

definition on_handshake_done ::
  "(ptr \<Rightarrow> ptr \<Rightarrow> int \<Rightarrow> ptr) \<Rightarrow> world \<Rightarrow> ptr \<Rightarrow> ptr \<Rightarrow> ptr \<Rightarrow> ptr \<Rightarrow> grpc_error
     \<Rightarrow> failure + world" where
  "on_handshake_done mk w endpoint args read_buffer user_data error =
     (case load (connectors w) user_data of
        None \<Rightarrow> Inl InvalidAccess
      | Some c \<Rightarrow>
          (let branch =
             (if error \<noteq> GRPC_ERROR_NONE
              then Inr (call (GprFree read_buffer) (call (ChannelArgsDestroy args) w))
              else
                (let w1 = call (CreateChttp2Transport args endpoint 1) w;
                     t = mk args endpoint 1
                 in case load (out_slots w1) (c_result c) of
                      None \<Rightarrow> Inl InvalidAccess
                    | Some slot \<Rightarrow>
                        (let w2 = w1\<lparr>out_slots :=
                                      (out_slots w1)(c_result c \<mapsto> slot\<lparr>out_transport := t\<rparr>)\<rparr>
                         in if t = NULL then Inl AssertionFailed
                            else
                              (let w3 = call (Chttp2TransportStartReading t read_buffer) w2
                               in Inr (w3\<lparr>out_slots :=
                                    (out_slots w3)(c_result c \<mapsto>
                                       slot\<lparr>out_transport := t, out_channel_args := args\<rparr>)\<rparr>)))))
           in case branch of
                Inl e \<Rightarrow> Inl e
              | Inr w4 \<Rightarrow>
                  (let notify = c_notify c;
                       w5 = put_connector user_data (c\<lparr>c_notify := NULL\<rparr>) w4
                   in Inr (call (ExecCtxSched notify error) w5))))"

definition connected :: "world \<Rightarrow> ptr \<Rightarrow> grpc_error \<Rightarrow> failure + world" where
  "connected w arg error =
     (case load (connectors w) arg of
        None \<Rightarrow> Inl InvalidAccess
      | Some c \<Rightarrow>
          (let tcp = c_tcp c
           in if tcp \<noteq> NULL
              then
                (if \<not> GRPC_SLICE_IS_EMPTY (initial_connect_string (c_args c))
                 then
                   (let c1 = c\<lparr>c_initial_string_sent :=
                                 \<lparr>cb = Some CB_on_initial_connect_string_sent, cb_arg = arg\<rparr>\<rparr>;
                        c2 = c1\<lparr>c_initial_string_buffer := []\<rparr>;
                        c3 = c2\<lparr>c_initial_string_buffer :=
                                  c_initial_string_buffer c2 @ [initial_connect_string (c_args c)]\<rparr>
                    in case connector_ref (put_connector arg c3 w) arg of
                         Inl e \<Rightarrow> Inl e
                       | Inr w1 \<Rightarrow>
                           Inr (call (EndpointWrite tcp (c_initial_string_buffer c3)
                                        (InitialStringSentOf arg)) w1))
                 else
                   Inr (call (HandshakeManagerDoHandshake (c_handshake_mgr c) tcp
                                (channel_args (c_args c)) (deadline (c_args c)) NULL
                                CB_on_handshake_done arg) w))
              else
                (case load (out_slots w) (c_result c) of
                   None \<Rightarrow> Inl InvalidAccess
                 | Some slot \<Rightarrow>
                     (let w1 = w\<lparr>out_slots := (out_slots w)(c_result c \<mapsto>
                                   \<lparr>out_transport = NULL, out_channel_args = NULL\<rparr>)\<rparr>;
                          notify = c_notify c;
                          w2 = put_connector arg (c\<lparr>c_notify := NULL\<rparr>) w1;
                          w3 = call (ErrorRef error) w2
                      in Inr (call (ExecCtxSched notify error) w3)))))"

subsection \<open>Starting an attempt (lines 141-158)\<close>

definition connector_shutdown :: "world \<Rightarrow> ptr \<Rightarrow> world" where
  "connector_shutdown w con = w"

definition connector_connect ::
  "world \<Rightarrow> ptr \<Rightarrow> grpc_connect_in_args \<Rightarrow> ptr \<Rightarrow> ptr \<Rightarrow> failure + world" where
  "connector_connect w con args result notify =
     (case load (connectors w) con of
        None \<Rightarrow> Inl InvalidAccess
      | Some c \<Rightarrow>
          if c_notify c \<noteq> NULL then Inl AssertionFailed
          else
            (case load (closures w) notify of
               None \<Rightarrow> Inl InvalidAccess
             | Some cl \<Rightarrow>
                 if cb cl = None then Inl AssertionFailed
                 else
                   (let c1 = c\<lparr>c_notify := notify\<rparr>;
                        c2 = c1\<lparr>c_args := args\<rparr>;
                        c3 = c2\<lparr>c_result := result\<rparr>;
                        c4 = c3\<lparr>c_tcp := NULL\<rparr>;
                        c5 = c4\<lparr>c_connected := \<lparr>cb = Some CB_connected, cb_arg = con\<rparr>\<rparr>
                    in Inr (call (TcpClientConnect (ConnectedOf con) con
                                   (interested_parties args) (channel_args args)
                                   (addr args) (deadline args))
                              (put_connector con c5 w)))))"

subsection \<open>Completion of the asynchronous operations\<close>

text \<open>
  Modelled from the spec: the collaborators that complete the three asynchronous
  operations (tcp_client.h, endpoint.h and handshaker.h are not part of the file). The raw
  connect "on completion sets \<open>endpoint_out\<close> to a live endpoint or leaves it empty on
  failure, and invokes \<open>on_connected\<close> with an error value"; a write invokes its
  closure with the write's error; \<open>do_handshake\<close> "invokes \<open>on_done\<close> exactly once"
  with the final endpoint, the options, the leftover read buffer and the error. What
  each operation yields is given by a record of outcomes.
\<close>

record completions =
  tcp_endpoint :: ptr
  tcp_error :: grpc_error
  write_error :: grpc_error
  hs_endpoint :: ptr
  hs_args :: ptr
  hs_read_buffer :: ptr
  hs_error :: grpc_error

definition closure_of :: "world \<Rightarrow> closure_ref \<Rightarrow> grpc_closure option" where
  "closure_of w r =
     (case r of
        ClosureAt p \<Rightarrow> load (closures w) p
      | ConnectedOf p \<Rightarrow> map_option c_connected (load (connectors w) p)
      | InitialStringSentOf p \<Rightarrow> map_option c_initial_string_sent (load (connectors w) p))"

text \<open>Running a closure calls the function stored in it on the stored argument.\<close>

definition run_closure :: "world \<Rightarrow> closure_ref \<Rightarrow> grpc_error \<Rightarrow> failure + world" where
  "run_closure w r error =
     (case closure_of w r of
        None \<Rightarrow> Inl InvalidAccess
      | Some cl \<Rightarrow>
          (case cb cl of
             None \<Rightarrow> Inl InvalidAccess
           | Some CB_connected \<Rightarrow> connected w (cb_arg cl) error
           | Some CB_on_initial_connect_string_sent \<Rightarrow>
               on_initial_connect_string_sent w (cb_arg cl) error
           | Some CB_on_handshake_done \<Rightarrow> Inl InvalidAccess
           | Some (CB_foreign n) \<Rightarrow> Inr w))"

definition complete ::
  "(ptr \<Rightarrow> ptr \<Rightarrow> int \<Rightarrow> ptr) \<Rightarrow> completions \<Rightarrow> effect \<Rightarrow> world \<Rightarrow> failure + world" where
  "complete mk env e w =
     (case e of
        TcpClientConnect cl ep ip ca ad dl \<Rightarrow>
          (case load (connectors w) ep of
             None \<Rightarrow> Inl InvalidAccess
           | Some c \<Rightarrow>
               run_closure (put_connector ep (c\<lparr>c_tcp := tcp_endpoint env\<rparr>) w) cl (tcp_error env))
      | EndpointWrite tcp buf cl \<Rightarrow> run_closure w cl (write_error env)
      | HandshakeManagerDoHandshake mgr tcp ca dl acc done ud \<Rightarrow>
          (if done = CB_on_handshake_done
           then on_handshake_done mk w (hs_endpoint env) (hs_args env) (hs_read_buffer env) ud
                  (hs_error env)
           else Inr w)
      | _ \<Rightarrow> Inr w)"

text \<open>
  The calls of the trace from position \<open>i\<close> on are completed in the order they were
  made; a completion may append further calls. \<open>None\<close>: the fuel ran out with calls
  still to complete.
\<close>

fun run ::
  "(ptr \<Rightarrow> ptr \<Rightarrow> int \<Rightarrow> ptr) \<Rightarrow> completions \<Rightarrow> nat \<Rightarrow> nat \<Rightarrow> world
     \<Rightarrow> (failure + world) option" where
  "run mk env 0 i w = (if i < length (trace w) then None else Some (Inr w))"
| "run mk env (Suc n) i w =
     (if i < length (trace w)
      then (case complete mk env (trace w ! i) w of
              Inl e \<Rightarrow> Some (Inl e)
            | Inr w' \<Rightarrow> run mk env n (Suc i) w')
      else Some (Inr w))"

text \<open>One attempt: \<open>connector_connect\<close>, then every call it leads to, completed.\<close>

definition attempt ::
  "(ptr \<Rightarrow> ptr \<Rightarrow> int \<Rightarrow> ptr) \<Rightarrow> completions \<Rightarrow> nat \<Rightarrow> world \<Rightarrow> ptr
     \<Rightarrow> grpc_connect_in_args \<Rightarrow> ptr \<Rightarrow> ptr \<Rightarrow> (failure + world) option" where
  "attempt mk env fuel w con args result notify =
     (case connector_connect w con args result notify of
        Inl e \<Rightarrow> Some (Inl e)
      | Inr w1 \<Rightarrow> run mk env fuel (length (trace w)) w1)"

text \<open>How many times the closure \<open>n\<close> was handed to \<^verbatim>\<open>grpc_exec_ctx_sched\<close>.\<close>

fun is_sched_of :: "ptr \<Rightarrow> effect \<Rightarrow> bool" where
  "is_sched_of n (ExecCtxSched p e) = (p = n)"
| "is_sched_of n _ = False"

definition sched_count :: "ptr \<Rightarrow> effect list \<Rightarrow> nat" where
  "sched_count n tr = length (filter (is_sched_of n) tr)"

fun is_do_handshake :: "effect \<Rightarrow> bool" where
  "is_do_handshake (HandshakeManagerDoHandshake mgr tcp ca dl acc done ud) = True"
| "is_do_handshake _ = False"

subsection \<open>The client channel factory (lines 167-206)\<close>

definition client_channel_factory_ref :: "world \<Rightarrow> ptr \<Rightarrow> world" where
  "client_channel_factory_ref w cc_factory = w"

definition client_channel_factory_unref :: "world \<Rightarrow> ptr \<Rightarrow> world" where
  "client_channel_factory_unref w cc_factory = w"

text \<open>
  What the collaborators of \<^verbatim>\<open>client_channel_factory_create_subchannel\<close> return:
  the address \<^verbatim>\<open>gpr_malloc\<close> allocates, the manager
  \<^verbatim>\<open>grpc_handshake_manager_create\<close> returns, the proxy
  \<^verbatim>\<open>grpc_get_http_proxy_server\<close> finds (none for a null string), and the
  subchannel \<^verbatim>\<open>grpc_subchannel_create\<close> returns together with the number of
  references it takes on the connector it is handed. The connector's count is private
  to the file: a collaborator takes a reference only through the \<open>ref\<close> entry of the
  connector's vtable, which is \<open>connector_ref\<close>.
\<close>

record factory_env =
  gpr_malloc_result :: ptr
  handshake_manager_create_result :: ptr
  http_proxy_server :: "string option"
  subchannel_create_result :: ptr
  subchannel_refs_taken :: nat

definition zero_connector :: connector where
  "zero_connector =
     \<lparr>c_base_vtable = None, c_refs = 0, c_notify = NULL,
      c_args = \<lparr>interested_parties = NULL, addr = NULL, deadline = 0, channel_args = NULL,
                initial_connect_string = []\<rparr>,
      c_result = NULL, c_initial_string_sent = \<lparr>cb = None, cb_arg = NULL\<rparr>,
      c_initial_string_buffer = [], c_tcp = NULL,
      c_connected = \<lparr>cb = None, cb_arg = NULL\<rparr>, c_handshake_mgr = NULL\<rparr>"

text \<open>
  Modelled from the spec: the Handshake Manager is "an ordered sequence of Handshaker
  entries"; \<open>create\<close> yields the empty sequence and \<open>add\<close> appends (handshaker.c is not
  part of the file).
\<close>

definition grpc_handshake_manager_create :: "ptr \<Rightarrow> world \<Rightarrow> world" where
  "grpc_handshake_manager_create mgr w =
     call (HandshakeManagerCreate mgr) (w\<lparr>managers := (managers w)(mgr \<mapsto> [])\<rparr>)"

definition grpc_handshake_manager_add :: "ptr \<Rightarrow> handshaker \<Rightarrow> world \<Rightarrow> world" where
  "grpc_handshake_manager_add mgr h w =
     call (HandshakeManagerAdd mgr h)
       (w\<lparr>managers := (managers w)(mgr :=
             (case managers w mgr of None \<Rightarrow> None | Some hs \<Rightarrow> Some (hs @ [h])))\<rparr>)"

text \<open>
  \<^verbatim>\<open>grpc_connector_unref\<close> calls the \<open>unref\<close> entry of the connector's vtable,
  which for \<^verbatim>\<open>connector_vtable\<close> (lines 160-161) is \<open>connector_unref\<close>.
\<close>

definition grpc_connector_unref :: "world \<Rightarrow> ptr \<Rightarrow> failure + world" where
  "grpc_connector_unref w con =
     (case load (connectors w) con of
        None \<Rightarrow> Inl InvalidAccess
      | Some c \<Rightarrow>
          (case c_base_vtable c of
             None \<Rightarrow> Inl InvalidAccess
           | Some Connector_vtable \<Rightarrow> connector_unref w con))"

text \<open>
  \<^verbatim>\<open>grpc_connector_ref\<close> calls the \<open>ref\<close> entry of the connector's vtable, which
  for \<^verbatim>\<open>connector_vtable\<close> is \<open>connector_ref\<close>.
\<close>

definition grpc_connector_ref :: "world \<Rightarrow> ptr \<Rightarrow> failure + world" where
  "grpc_connector_ref w con =
     (case load (connectors w) con of
        None \<Rightarrow> Inl InvalidAccess
      | Some c \<Rightarrow>
          (case c_base_vtable c of
             None \<Rightarrow> Inl InvalidAccess
           | Some Connector_vtable \<Rightarrow> connector_ref w con))"

text \<open>The references \<^verbatim>\<open>grpc_subchannel_create\<close> takes, one call of the vtable's \<open>ref\<close> each.\<close>

fun subchannel_takes_refs :: "nat \<Rightarrow> world \<Rightarrow> ptr \<Rightarrow> failure + world" where
  "subchannel_takes_refs 0 w con = Inr w"
| "subchannel_takes_refs (Suc n) w con =
     (case grpc_connector_ref w con of
        Inl e \<Rightarrow> Inl e
      | Inr w' \<Rightarrow> subchannel_takes_refs n w' con)"

definition client_channel_factory_create_subchannel ::
  "factory_env \<Rightarrow> world \<Rightarrow> ptr \<Rightarrow> grpc_subchannel_args \<Rightarrow> failure + (ptr \<times> world)" where
  "client_channel_factory_create_subchannel env w cc_factory args =
     (let c = gpr_malloc_result env;
          c1 = zero_connector;
          c2 = c1\<lparr>c_base_vtable := Some Connector_vtable\<rparr>;
          c3 = c2\<lparr>c_refs := 1\<rparr>;
          mgr = handshake_manager_create_result env;
          w1 = grpc_handshake_manager_create mgr w;
          c4 = c3\<lparr>c_handshake_mgr := mgr\<rparr>;
          w2 = put_connector c c4 w1;
          w3 = (case http_proxy_server env of
                  None \<Rightarrow> w2
                | Some proxy_name \<Rightarrow>
                    (let h = HttpConnectHandshaker proxy_name (server_name args);
                         w2a = call (HttpConnectHandshakerCreate proxy_name (server_name args)) w2;
                         w2b = grpc_handshake_manager_add (c_handshake_mgr c4) h w2a
                     in call (GprFreeString proxy_name) w2b));
          w4 = call (SubchannelCreate c args) w3;
          s = subchannel_create_result env
      in case subchannel_takes_refs (subchannel_refs_taken env) w4 c of
           Inl e \<Rightarrow> Inl e
         | Inr w5 \<Rightarrow>
             (case grpc_connector_unref w5 c of
                Inl e \<Rightarrow> Inl e
              | Inr w6 \<Rightarrow> Inr (s, w6)))"

subsection \<open>The pointer vtable of the factory argument (lines 208-219)\<close>

definition cc_factory_arg_copy :: "ptr \<Rightarrow> ptr" where
  "cc_factory_arg_copy cc_factory = cc_factory"

definition cc_factory_arg_destroy :: "ptr \<Rightarrow> world \<Rightarrow> world" where
  "cc_factory_arg_destroy cc_factory w = w"

definition cc_factory_arg_cmp :: "ptr \<Rightarrow> ptr \<Rightarrow> int" where
  "cc_factory_arg_cmp cc_factory1 cc_factory2 =
     (if cc_factory1 < cc_factory2 then - 1
      else if cc_factory1 > cc_factory2 then 1
      else 0)"

record grpc_arg_pointer_vtable =
  vt_copy :: "ptr \<Rightarrow> ptr"
  vt_destroy :: "ptr \<Rightarrow> world \<Rightarrow> world"
  vt_cmp :: "ptr \<Rightarrow> ptr \<Rightarrow> int"

definition cc_factory_arg_vtable :: grpc_arg_pointer_vtable where
  "cc_factory_arg_vtable =
     \<lparr>vt_copy = cc_factory_arg_copy, vt_destroy = cc_factory_arg_destroy,
      vt_cmp = cc_factory_arg_cmp\<rparr>"

subsection \<open>The public entry point (lines 225-256)\<close>

datatype grpc_arg_type = GRPC_ARG_STRING | GRPC_ARG_INTEGER | GRPC_ARG_POINTER

text \<open>The keys are the macros of grpc_types.h and client_channel_factory.h, kept by name.\<close>

datatype grpc_arg_key = GRPC_ARG_SERVER_URI | GRPC_ARG_CLIENT_CHANNEL_FACTORY | Other_key string

datatype grpc_arg_value =
    Value_string string
  | Value_integer int
  | Value_pointer ptr grpc_arg_pointer_vtable

record grpc_arg =
  arg_type :: grpc_arg_type
  arg_key :: grpc_arg_key
  arg_value :: grpc_arg_value

text \<open>
  Modelled from the spec: the channel-options bag is "an immutable, copy-on-extend
  key/value list"; "pointer-valued entries carry an explicit copy/destroy/compare vtable so
  the options bag can be deep-copied" (channel_args.c is not part of the file). A copy
  of the bag copies each pointer entry through the \<open>copy\<close> of its own vtable.
\<close>

definition copy_arg :: "grpc_arg \<Rightarrow> grpc_arg" where
  "copy_arg a =
     (case arg_value a of
        Value_pointer p vt \<Rightarrow> a\<lparr>arg_value := Value_pointer (vt_copy vt p) vt\<rparr>
      | _ \<Rightarrow> a)"

definition grpc_channel_args_copy_and_add :: "grpc_arg list \<Rightarrow> grpc_arg list \<Rightarrow> grpc_arg list" where
  "grpc_channel_args_copy_and_add src to_add = map copy_arg (src @ to_add)"

datatype grpc_status_code = GRPC_STATUS_OK | GRPC_STATUS_INTERNAL | Other_status int

datatype grpc_channel_stack_type = GRPC_CLIENT_CHANNEL | Other_stack_type nat

datatype grpc_client_channel_type = GRPC_CLIENT_CHANNEL_TYPE_REGULAR | Other_channel_type nat

text \<open>
  A channel object: one built by \<^verbatim>\<open>grpc_channel_create\<close>, known by its address, or
  a lame channel. A pointer to a channel is a \<open>grpc_channel option\<close>, \<open>None\<close> the null
  pointer.
\<close>

datatype grpc_channel = Channel ptr | Lame_channel string grpc_status_code string

text \<open>
  Modelled from the spec: a lame channel is "a valid, non-null channel object whose every
  call immediately fails with an internal-error status carrying a fixed diagnostic message"
  (lame_client.c is not part of the file).
\<close>

definition grpc_lame_client_channel_create ::
  "string \<Rightarrow> grpc_status_code \<Rightarrow> string \<Rightarrow> grpc_channel option" where
  "grpc_lame_client_channel_create target error_code error_message =
     Some (Lame_channel target error_code error_message)"

text \<open>
  \<open>create\<close> is the result of the collaborator \<^verbatim>\<open>grpc_channel_create\<close> for the
  target, the channel args, the stack type and the optional transport it is given.
\<close>

type_synonym channel_create =
  "string \<Rightarrow> grpc_arg list \<Rightarrow> grpc_channel_stack_type \<Rightarrow> ptr \<Rightarrow> grpc_channel option"

text \<open>The calls the entry point makes, in order.\<close>

datatype api_call =
    Channel_args_copy_and_add "grpc_arg list" "grpc_arg list"
  | Channel_create string "grpc_arg list" grpc_channel_stack_type ptr
  | Channel_args_destroy "grpc_arg list"
  | Client_channel_factory_unref ptr
  | Exec_ctx_finish
  | Lame_client_channel_create string grpc_status_code string

definition client_channel_factory_create_channel ::
  "channel_create \<Rightarrow> ptr \<Rightarrow> string \<Rightarrow> grpc_client_channel_type \<Rightarrow> grpc_arg list
     \<Rightarrow> grpc_channel option \<times> api_call list" where
  "client_channel_factory_create_channel create cc_factory target type args =
     (create target args GRPC_CLIENT_CHANNEL NULL,
      [Channel_create target args GRPC_CLIENT_CHANNEL NULL])"

text \<open>
  \<open>factory\<close> is the address of the static \<^verbatim>\<open>client_channel_factory\<close>; \<open>args\<close> is the
  caller's options bag (empty for a null pointer). The result is the channel returned
  and the calls made.
\<close>

definition grpc_insecure_channel_create ::
  "channel_create \<Rightarrow> ptr \<Rightarrow> string \<Rightarrow> grpc_arg list \<Rightarrow> ptr
     \<Rightarrow> failure + (grpc_channel option \<times> api_call list)" where
  "grpc_insecure_channel_create create factory target args reserved =
     (if reserved \<noteq> NULL then Inl AssertionFailed
      else
        (let new_args0 = \<lparr>arg_type = GRPC_ARG_STRING, arg_key = GRPC_ARG_SERVER_URI,
                           arg_value = Value_string target\<rparr>;
             new_args1 = \<lparr>arg_type = GRPC_ARG_POINTER, arg_key = GRPC_ARG_CLIENT_CHANNEL_FACTORY,
                           arg_value = Value_pointer factory cc_factory_arg_vtable\<rparr>;
             args_copy = grpc_channel_args_copy_and_add args [new_args0, new_args1];
             calls1 = [Channel_args_copy_and_add args [new_args0, new_args1]];
             (channel, calls2) = client_channel_factory_create_channel create factory target
                                   GRPC_CLIENT_CHANNEL_TYPE_REGULAR args_copy;
             calls3 = calls1 @ calls2 @
                        [Channel_args_destroy args_copy, Client_channel_factory_unref factory,
                         Exec_ctx_finish]
         in if channel \<noteq> None then Inr (channel, calls3)
            else Inr (grpc_lame_client_channel_create target GRPC_STATUS_INTERNAL
                        ''Failed to create client channel'',
                      calls3 @ [Lame_client_channel_create target GRPC_STATUS_INTERNAL
                                  ''Failed to create client channel''])))"

subsection \<open>Concrete inputs\<close>

text \<open>
  An idle connector at address 1 with two references and the handshake manager 5, a
  result slot at address 2, a caller's closure at address 3, and connect arguments whose
  initial connect string is the one byte \<open>x\<close>.
\<close>

definition ex_args :: grpc_connect_in_args where
  "ex_args = \<lparr>interested_parties = 4, addr = 6, deadline = 100, channel_args = 7,
              initial_connect_string = ''x''\<rparr>"

definition ex_connector :: connector where
  "ex_connector = zero_connector\<lparr>c_base_vtable := Some Connector_vtable, c_refs := 2,
                                 c_handshake_mgr := 5\<rparr>"

definition ex_world :: world where
  "ex_world = \<lparr>connectors = [1 \<mapsto> ex_connector],
               out_slots = [2 \<mapsto> \<lparr>out_transport = 9, out_channel_args = 9\<rparr>],
               closures = [3 \<mapsto> \<lparr>cb = Some (CB_foreign 0), cb_arg = 0\<rparr>],
               managers = [5 \<mapsto> []],
               trace = []\<rparr>"

text \<open>The same connector in the middle of an attempt, with the endpoint 8 connected.\<close>

definition ex_started :: connector where
  "ex_started = ex_connector\<lparr>c_notify := 3, c_args := ex_args, c_result := 2, c_tcp := 8,
                              c_connected := \<lparr>cb = Some CB_connected, cb_arg = 1\<rparr>\<rparr>"

definition ex_world_started :: world where
  "ex_world_started = ex_world\<lparr>connectors := [1 \<mapsto> ex_started]\<rparr>"

text \<open>Every asynchronous operation succeeds; the transport constructor returns 11.\<close>

definition ex_env :: completions where
  "ex_env = \<lparr>tcp_endpoint = 8, tcp_error = GRPC_ERROR_NONE, write_error = GRPC_ERROR_NONE,
             hs_endpoint = 8, hs_args = 7, hs_read_buffer = 10, hs_error = GRPC_ERROR_NONE\<rparr>"

definition ex_mk :: "ptr \<Rightarrow> ptr \<Rightarrow> int \<Rightarrow> ptr" where
  "ex_mk args endpoint is_client = 11"

definition ex_factory_env :: factory_env where
  "ex_factory_env = \<lparr>gpr_malloc_result = 1, handshake_manager_create_result = 5,
                     http_proxy_server = Some ''proxy:3128'', subchannel_create_result = 20,
                     subchannel_refs_taken = 1\<rparr>"

definition ex_subchannel_args :: grpc_subchannel_args where
  "ex_subchannel_args = \<lparr>server_name = ''server:443'', sub_rest = 21\<rparr>"

definition ex_empty_world :: world where
  "ex_empty_world = \<lparr>connectors = Map.empty, out_slots = Map.empty, closures = Map.empty,
                     managers = Map.empty, trace = []\<rparr>"

definition ex_no_channel :: channel_create where
  "ex_no_channel target args stack_type transport = None"

section \<open>Properties\<close>

lemmas store_defs = call_def put_connector_def load_def Let_def

lemmas base_defs = zero_connector_def NULL_def GRPC_ERROR_NONE_def GRPC_SLICE_IS_EMPTY_def

subsection \<open>Whole attempts\<close>

text \<open>More fuel does not change the result of a run that has completed every call.\<close>

lemma run_more_fuel:
  "run mk env n i w = Some r \<Longrightarrow> run mk env (n + k) i w = Some r"
proof (induction n arbitrary: i w)
  case 0
  then show ?case by (cases k) (simp_all split: if_splits)
next
  case (Suc n)
  then show ?case by (auto split: if_splits sum.splits)
qed

text \<open>
  An attempt whose raw connect leaves the endpoint empty: three calls, the last of them
  the one scheduling of the caller's closure.
\<close>

lemma attempt_connect_failure_notifies:
  assumes "load (connectors w) con = Some c"
      and "c_notify c = NULL"
      and "load (closures w) notify = Some cl"
      and "cb cl \<noteq> None"
      and "load (out_slots w) result = Some slot"
      and "tcp_endpoint env = NULL"
  shows "\<exists>w'. attempt mk env (Suc (Suc (Suc k))) w con args result notify = Some (Inr w')
      \<and> trace w' = trace w @
           [TcpClientConnect (ConnectedOf con) con (interested_parties args) (channel_args args)
              (addr args) (deadline args),
            ErrorRef (tcp_error env), ExecCtxSched notify (tcp_error env)]
      \<and> out_slots w' result = Some \<lparr>out_transport = NULL, out_channel_args = NULL\<rparr>
      \<and> map_option c_notify (connectors w' con) = Some NULL"
  using assms
  by (cases k)
     (auto simp add: attempt_def connector_connect_def connected_def complete_def
        run_closure_def closure_of_def store_defs nth_append split: if_splits)

text \<open>
  An attempt with an empty initial connect string whose raw connect succeeds: the
  handshake is started and its completion schedules the caller's closure once, with the
  handshake's error.
\<close>

lemma attempt_handshake_notifies:
  assumes "load (connectors w) con = Some c"
      and "c_notify c = NULL"
      and "load (closures w) notify = Some cl"
      and "cb cl \<noteq> None"
      and "load (out_slots w) result = Some slot"
      and "tcp_endpoint env \<noteq> NULL"
      and "GRPC_SLICE_IS_EMPTY (initial_connect_string args)"
      and "mk (hs_args env) (hs_endpoint env) 1 \<noteq> NULL"
  shows "\<exists>w'. attempt mk env (Suc (Suc (Suc (Suc (Suc k))))) w con args result notify
               = Some (Inr w')
      \<and> trace w' = trace w @
           [TcpClientConnect (ConnectedOf con) con (interested_parties args) (channel_args args)
              (addr args) (deadline args),
            HandshakeManagerDoHandshake (c_handshake_mgr c) (tcp_endpoint env)
              (channel_args args) (deadline args) NULL CB_on_handshake_done con]
           @ (if hs_error env \<noteq> GRPC_ERROR_NONE
              then [ChannelArgsDestroy (hs_args env), GprFree (hs_read_buffer env)]
              else [CreateChttp2Transport (hs_args env) (hs_endpoint env) 1,
                    Chttp2TransportStartReading (mk (hs_args env) (hs_endpoint env) 1)
                      (hs_read_buffer env)])
           @ [ExecCtxSched notify (hs_error env)]
      \<and> map_option c_notify (connectors w' con) = Some NULL"
  using assms
  by (cases k)
     (auto simp add: attempt_def connector_connect_def connected_def complete_def
        run_closure_def on_handshake_done_def closure_of_def store_defs nth_append
        split: if_splits)

text \<open>
  An attempt with a non-empty initial connect string whose raw connect succeeds, on a
  connector that holds a reference: the write is issued, its completion releases the
  reference taken for it, and nothing else is ever called. The caller's closure is still
  stored in the connector.
\<close>

lemma attempt_initial_string_stops_after_write:
  assumes "load (connectors w) con = Some c"
      and "c_notify c = NULL"
      and "load (closures w) notify = Some cl"
      and "cb cl \<noteq> None"
      and "tcp_endpoint env \<noteq> NULL"
      and "\<not> GRPC_SLICE_IS_EMPTY (initial_connect_string args)"
      and "0 < c_refs c"
  shows "\<exists>w'. attempt mk env (Suc (Suc (Suc (Suc k)))) w con args result notify = Some (Inr w')
      \<and> trace w' = trace w @
           [TcpClientConnect (ConnectedOf con) con (interested_parties args) (channel_args args)
              (addr args) (deadline args),
            GprRef con,
            EndpointWrite (tcp_endpoint env) [initial_connect_string args]
              (InitialStringSentOf con),
            GprUnref con]
      \<and> map_option c_notify (connectors w' con) = Some notify"
  using assms
  by (cases k)
     (auto simp add: attempt_def connector_connect_def connected_def connector_ref_def
        on_initial_connect_string_sent_def connector_unref_def complete_def run_closure_def
        closure_of_def store_defs nth_append split: if_splits)

subsection \<open>Exactly-once notification and the initial connect string\<close>

text \<open>
  Claim C1: for every attempt started by \<open>connector_connect\<close> the completion callback
  is invoked exactly once, and no path drops the attempt without invoking it. On the
  code this fails for an attempt whose raw connect succeeds and whose initial connect
  string is not empty: the attempt on the idle connector of \<open>ex_world\<close> with the
  arguments \<open>ex_args\<close> completes every call it leads to (the connect, the reference,
  the write, the release), the caller's closure 3 is never handed to
  \<^verbatim>\<open>grpc_exec_ctx_sched\<close>, and it is still stored in the connector's \<open>notify\<close>.
\<close>

theorem notify_never_scheduled_on_initial_string_path:
  "\<exists>w'. attempt ex_mk ex_env 10 ex_world 1 ex_args 2 3 = Some (Inr w')
     \<and> trace w' = [TcpClientConnect (ConnectedOf 1) 1 4 7 6 100, GprRef 1,
                    EndpointWrite 8 [''x''] (InitialStringSentOf 1), GprUnref 1]
     \<and> sched_count 3 (trace w') = 0
     \<and> map_option c_notify (connectors w' 1) = Some 3
     \<and> out_slots w' 2 = Some \<lparr>out_transport = 9, out_channel_args = 9\<rparr>"
  by (simp add: attempt_def connector_connect_def connected_def connector_ref_def
      on_initial_connect_string_sent_def connector_unref_def complete_def run_closure_def
      closure_of_def sched_count_def store_defs base_defs eval_nat_numeral
      ex_env_def ex_world_def ex_connector_def ex_args_def)

text \<open>
  Claim C2: after the initial-bytes write completes, whether it succeeded or failed, the
  connector invokes \<^verbatim>\<open>grpc_handshake_manager_do_handshake\<close>. On the code the
  write's completion callback only releases a reference: in the same attempt, with the
  write succeeding and with the write failing with the error 12, no handshake is ever
  started.
\<close>

theorem no_handshake_after_initial_string_write:
  "\<exists>w1 w2.
       attempt ex_mk ex_env 10 ex_world 1 ex_args 2 3 = Some (Inr w1)
     \<and> attempt ex_mk (ex_env\<lparr>write_error := 12\<rparr>) 10 ex_world 1 ex_args 2 3 = Some (Inr w2)
     \<and> trace w1 = [TcpClientConnect (ConnectedOf 1) 1 4 7 6 100, GprRef 1,
                    EndpointWrite 8 [''x''] (InitialStringSentOf 1), GprUnref 1]
     \<and> trace w2 = trace w1
     \<and> filter is_do_handshake (trace w1) = []
     \<and> filter is_do_handshake (trace w2) = []"
  by (simp add: attempt_def connector_connect_def connected_def connector_ref_def
      on_initial_connect_string_sent_def connector_unref_def complete_def run_closure_def
      closure_of_def store_defs base_defs eval_nat_numeral
      ex_env_def ex_world_def ex_connector_def ex_args_def)

subsection \<open>The handshake's completion\<close>

text \<open>
  Claim C3: when the handshake completes without error, \<open>on_handshake_done\<close> constructs
  the chttp2 transport over the final endpoint, asserts that the construction succeeded,
  starts the transport reading from the leftover read buffer, stores the transport and
  the negotiated channel args into the result slot, and then schedules the completion
  callback with no error (clearing the stored callback).
\<close>

theorem on_handshake_done_success:
  assumes "load (connectors w) user_data = Some c"
      and "load (out_slots w) (c_result c) = Some slot"
  shows "on_handshake_done mk w endpoint args read_buffer user_data GRPC_ERROR_NONE =
     (if mk args endpoint 1 = NULL then Inl AssertionFailed
      else Inr (w\<lparr>out_slots := (out_slots w)(c_result c \<mapsto>
                      slot\<lparr>out_transport := mk args endpoint 1, out_channel_args := args\<rparr>),
                 connectors := (connectors w)(user_data \<mapsto> c\<lparr>c_notify := NULL\<rparr>),
                 trace := trace w @
                   [CreateChttp2Transport args endpoint 1,
                    Chttp2TransportStartReading (mk args endpoint 1) read_buffer,
                    ExecCtxSched (c_notify c) GRPC_ERROR_NONE]\<rparr>))"
proof -
  from assms(1) have live: "user_data \<noteq> NULL" "connectors w user_data = Some c"
    by (simp_all add: load_def split: if_splits)
  from assms(2) have slot: "c_result c \<noteq> NULL" "out_slots w (c_result c) = Some slot"
    by (simp_all add: load_def split: if_splits)
  show ?thesis
    using live slot by (simp add: on_handshake_done_def store_defs)
qed

theorem on_handshake_done_success_witness:
  "load (connectors ex_world_started) 1 = Some ex_started
   \<and> load (out_slots ex_world_started) (c_result ex_started)
       = Some \<lparr>out_transport = 9, out_channel_args = 9\<rparr>
   \<and> on_handshake_done ex_mk ex_world_started 8 7 10 1 GRPC_ERROR_NONE =
       Inr (ex_world_started
             \<lparr>out_slots := [2 \<mapsto> \<lparr>out_transport = 11, out_channel_args = 7\<rparr>],
              connectors := [1 \<mapsto> ex_started\<lparr>c_notify := NULL\<rparr>],
              trace := [CreateChttp2Transport 7 8 1, Chttp2TransportStartReading 11 10,
                        ExecCtxSched 3 GRPC_ERROR_NONE]\<rparr>)
   \<and> on_handshake_done (\<lambda>a e i. NULL) ex_world_started 8 7 10 1 GRPC_ERROR_NONE
       = Inl AssertionFailed"
  using on_handshake_done_success [of ex_world_started 1 ex_started
          "\<lparr>out_transport = 9, out_channel_args = 9\<rparr>" ex_mk 8 7 10]
        on_handshake_done_success [of ex_world_started 1 ex_started
          "\<lparr>out_transport = 9, out_channel_args = 9\<rparr>" "\<lambda>a e i. NULL" 8 7 10]
  by (simp add: store_defs base_defs ex_world_started_def ex_started_def ex_world_def
      ex_connector_def ex_args_def ex_mk_def)

text \<open>
  Claim C5: when the handshake reports an error, \<open>on_handshake_done\<close> destroys the
  negotiated channel args and frees the leftover read buffer, constructs no transport,
  leaves every result slot as it was, and schedules the completion callback with the
  handshake's error.
\<close>

theorem on_handshake_done_error:
  assumes "load (connectors w) user_data = Some c"
      and "error \<noteq> GRPC_ERROR_NONE"
  shows "\<exists>w'. on_handshake_done mk w endpoint args read_buffer user_data error = Inr w'
      \<and> trace w' = trace w @
           [ChannelArgsDestroy args, GprFree read_buffer, ExecCtxSched (c_notify c) error]
      \<and> out_slots w' = out_slots w
      \<and> connectors w' = (connectors w)(user_data \<mapsto> c\<lparr>c_notify := NULL\<rparr>)
      \<and> closures w' = closures w
      \<and> managers w' = managers w"
proof -
  from assms(1) have live: "user_data \<noteq> NULL" "connectors w user_data = Some c"
    by (simp_all add: load_def split: if_splits)
  have "on_handshake_done mk w endpoint args read_buffer user_data error =
          Inr (call (ExecCtxSched (c_notify c) error)
                 (put_connector user_data (c\<lparr>c_notify := NULL\<rparr>)
                    (call (GprFree read_buffer) (call (ChannelArgsDestroy args) w))))"
    using live assms(2) by (simp add: on_handshake_done_def load_def Let_def)
  then show ?thesis
    by (simp add: call_def put_connector_def)
qed

theorem on_handshake_done_error_witness:
  "load (connectors ex_world_started) 1 = Some ex_started
   \<and> (12::grpc_error) \<noteq> GRPC_ERROR_NONE
   \<and> (\<exists>w'. on_handshake_done ex_mk ex_world_started 8 7 10 1 12 = Inr w'
        \<and> trace w' = [ChannelArgsDestroy 7, GprFree 10, ExecCtxSched 3 12]
        \<and> out_slots w' 2 = Some \<lparr>out_transport = 9, out_channel_args = 9\<rparr>
        \<and> map_option c_notify (connectors w' 1) = Some NULL)"
  using on_handshake_done_error [of ex_world_started 1 ex_started 12 ex_mk 8 7 10]
  by (auto simp add: store_defs base_defs ex_world_started_def ex_started_def ex_world_def
      ex_connector_def ex_args_def)

subsection \<open>The raw connect's completion\<close>

text \<open>
  Claim C4: when the raw connect fails, so that the endpoint is left empty, \<open>connected\<close>
  zeroes the result slot (no transport), and schedules the completion callback with the
  connect error; it issues no write and starts no handshake.
\<close>

theorem connected_connect_failure:
  assumes "load (connectors w) arg = Some c"
      and "c_tcp c = NULL"
      and "load (out_slots w) (c_result c) = Some slot"
  shows "\<exists>w'. connected w arg error = Inr w'
      \<and> trace w' = trace w @ [ErrorRef error, ExecCtxSched (c_notify c) error]
      \<and> out_slots w' = (out_slots w)(c_result c \<mapsto>
                           \<lparr>out_transport = NULL, out_channel_args = NULL\<rparr>)
      \<and> connectors w' = (connectors w)(arg \<mapsto> c\<lparr>c_notify := NULL\<rparr>)
      \<and> closures w' = closures w
      \<and> managers w' = managers w"
proof -
  from assms(1) have live: "arg \<noteq> NULL" "connectors w arg = Some c"
    by (simp_all add: load_def split: if_splits)
  from assms(3) have slot: "c_result c \<noteq> NULL" "out_slots w (c_result c) = Some slot"
    by (simp_all add: load_def split: if_splits)
  show ?thesis
    using live slot assms(2) by (simp add: connected_def store_defs)
qed

theorem connected_connect_failure_witness:
  "load (connectors (put_connector 1 (ex_started\<lparr>c_tcp := NULL\<rparr>) ex_world)) 1
       = Some (ex_started\<lparr>c_tcp := NULL\<rparr>)
   \<and> c_tcp (ex_started\<lparr>c_tcp := NULL\<rparr>) = NULL
   \<and> load (out_slots (put_connector 1 (ex_started\<lparr>c_tcp := NULL\<rparr>) ex_world)) 2
       = Some \<lparr>out_transport = 9, out_channel_args = 9\<rparr>
   \<and> (\<exists>w'. connected (put_connector 1 (ex_started\<lparr>c_tcp := NULL\<rparr>) ex_world) 1 12 = Inr w'
        \<and> trace w' = [ErrorRef 12, ExecCtxSched 3 12]
        \<and> out_slots w' 2 = Some \<lparr>out_transport = NULL, out_channel_args = NULL\<rparr>
        \<and> map_option c_notify (connectors w' 1) = Some NULL)"
  using connected_connect_failure
          [of "put_connector 1 (ex_started\<lparr>c_tcp := NULL\<rparr>) ex_world" 1
              "ex_started\<lparr>c_tcp := NULL\<rparr>" "\<lparr>out_transport = 9, out_channel_args = 9\<rparr>" 12]
  by (auto simp add: store_defs base_defs ex_started_def ex_world_def ex_connector_def
      ex_args_def)

subsection \<open>Starting an attempt\<close>

text \<open>
  Claim C8: \<open>connector_connect\<close> requires that no connect is in flight on the connector
  (the stored completion callback is null) and that the supplied closure has a non-null
  callback; it starts the attempt exactly under these two conditions and fails an
  assertion otherwise. A second call while the first attempt is in flight fails the
  assertion: it is fatal, not an error delivered to a callback.
\<close>

theorem connector_connect_preconditions:
  assumes "load (connectors w) con = Some c"
      and "load (closures w) notify = Some cl"
  shows "((\<exists>w'. connector_connect w con args result notify = Inr w')
            = (c_notify c = NULL \<and> cb cl \<noteq> None))
       \<and> ((connector_connect w con args result notify = Inl AssertionFailed)
            = (c_notify c \<noteq> NULL \<or> cb cl = None))
       \<and> (\<forall>w' args2 result2 notify2.
             connector_connect w con args result notify = Inr w' \<longrightarrow>
             connector_connect w' con args2 result2 notify2 = Inl AssertionFailed)"
proof -
  from assms(1) have live: "con \<noteq> NULL" "connectors w con = Some c"
    by (simp_all add: load_def split: if_splits)
  from assms(2) have given: "notify \<noteq> NULL" "closures w notify = Some cl"
    by (simp_all add: load_def split: if_splits)
  have starts: "(\<exists>w'. connector_connect w con args result notify = Inr w')
                  = (c_notify c = NULL \<and> cb cl \<noteq> None)"
    using live given by (auto simp add: connector_connect_def store_defs)
  have aborts: "(connector_connect w con args result notify = Inl AssertionFailed)
                  = (c_notify c \<noteq> NULL \<or> cb cl = None)"
    using live given by (auto simp add: connector_connect_def store_defs)
  have again: "connector_connect w' con args2 result2 notify2 = Inl AssertionFailed"
    if "connector_connect w con args result notify = Inr w'" for w' args2 result2 notify2
    using that live given
    by (auto simp add: connector_connect_def store_defs split: if_splits)
  from starts aborts again show ?thesis by blast
qed

theorem connector_connect_preconditions_witness:
  "load (connectors ex_world) 1 = Some ex_connector
   \<and> load (closures ex_world) 3 = Some \<lparr>cb = Some (CB_foreign 0), cb_arg = 0\<rparr>
   \<and> (\<exists>w'. connector_connect ex_world 1 ex_args 2 3 = Inr w'
        \<and> connector_connect w' 1 ex_args 2 3 = Inl AssertionFailed)
   \<and> connector_connect ex_world_started 1 ex_args 2 3 = Inl AssertionFailed"
  using connector_connect_preconditions
          [of ex_world 1 ex_connector 3 "\<lparr>cb = Some (CB_foreign 0), cb_arg = 0\<rparr>" ex_args 2]
  by (auto simp add: connector_connect_def store_defs base_defs ex_world_started_def
      ex_started_def ex_world_def ex_connector_def ex_args_def)

subsection \<open>The reference held for the initial-bytes write\<close>



subsection \<open>The factory\<close>

text \<open>
  Taking \<open>n\<close> references on a live connector of this file's vtable: \<open>n\<close> calls of
  \<^verbatim>\<open>gpr_ref\<close>, and the count \<open>n\<close> higher.
\<close>

lemma subchannel_takes_refs_result:
  assumes "con \<noteq> NULL"
      and "connectors w con = Some c"
      and "c_base_vtable c = Some Connector_vtable"
  shows "subchannel_takes_refs n w con =
           Inr (w\<lparr>connectors := (connectors w)(con \<mapsto> c\<lparr>c_refs := c_refs c + int n\<rparr>),
                  trace := trace w @ replicate n (GprRef con)\<rparr>)"
  using assms
proof (induction n arbitrary: w c)
  case 0
  then have "(connectors w)(con \<mapsto> c) = connectors w"
    by (simp add: fun_upd_idem)
  then show ?case by simp
next
  case (Suc n)
  let ?w1 = "call (GprRef con) (put_connector con (c\<lparr>c_refs := c_refs c + 1\<rparr>) w)"
  have step: "grpc_connector_ref w con = Inr ?w1"
    using Suc.prems by (simp add: grpc_connector_ref_def connector_ref_def load_def)
  have "subchannel_takes_refs n ?w1 con =
          Inr (?w1\<lparr>connectors := (connectors ?w1)(con \<mapsto>
                       (c\<lparr>c_refs := c_refs c + 1\<rparr>)\<lparr>c_refs := c_refs (c\<lparr>c_refs := c_refs c + 1\<rparr>) + int n\<rparr>),
                    trace := trace ?w1 @ replicate n (GprRef con)\<rparr>)"
    using Suc.prems(1,3) by (intro Suc.IH) (simp_all add: call_def put_connector_def)
  moreover have "subchannel_takes_refs (Suc n) w con = subchannel_takes_refs n ?w1 con"
    by (simp add: step)
  moreover have "?w1\<lparr>connectors := (connectors ?w1)(con \<mapsto>
                       (c\<lparr>c_refs := c_refs c + 1\<rparr>)\<lparr>c_refs := c_refs (c\<lparr>c_refs := c_refs c + 1\<rparr>) + int n\<rparr>),
                    trace := trace ?w1 @ replicate n (GprRef con)\<rparr>
                 = w\<lparr>connectors := (connectors w)(con \<mapsto> c\<lparr>c_refs := c_refs c + int (Suc n)\<rparr>),
                      trace := trace w @ replicate (Suc n) (GprRef con)\<rparr>"
    by (simp add: call_def put_connector_def add.assoc)
  ultimately show ?case
    by (simp only:)
qed

text \<open>
  Claim C7: a subchannel created by the factory gets a new handshake manager; when the
  proxy lookup returns an address, exactly one HTTP CONNECT handshaker, made from that
  address and the subchannel's server name, is added to it before the connector is handed
  to \<^verbatim>\<open>grpc_subchannel_create\<close>; when the lookup returns none, nothing is added and the
  pipeline is empty. After the hand-off come the references the subchannel takes, each a
  \<^verbatim>\<open>gpr_ref\<close>, and the factory's own release. (If the subchannel takes no
  reference on the connector, that release destroys the manager.)
\<close>

theorem create_subchannel_handshake_pipeline:
  assumes "gpr_malloc_result env \<noteq> NULL"
  shows "\<exists>w'. client_channel_factory_create_subchannel env w cc_factory args
               = Inr (subchannel_create_result env, w')
      \<and> trace w' = trace w
           @ [HandshakeManagerCreate (handshake_manager_create_result env)]
           @ (case http_proxy_server env of
                None \<Rightarrow> []
              | Some proxy \<Rightarrow>
                  [HttpConnectHandshakerCreate proxy (server_name args),
                   HandshakeManagerAdd (handshake_manager_create_result env)
                     (HttpConnectHandshaker proxy (server_name args)),
                   GprFreeString proxy])
           @ [SubchannelCreate (gpr_malloc_result env) args]
           @ replicate (subchannel_refs_taken env) (GprRef (gpr_malloc_result env))
           @ [GprUnref (gpr_malloc_result env)]
           @ (if subchannel_refs_taken env = 0
              then [HandshakeManagerDestroy (handshake_manager_create_result env),
                    GprFree (gpr_malloc_result env)]
              else [])
      \<and> managers w' (handshake_manager_create_result env) =
           (if subchannel_refs_taken env = 0 then None
            else (case http_proxy_server env of
                    None \<Rightarrow> Some []
                  | Some proxy \<Rightarrow> Some [HttpConnectHandshaker proxy (server_name args)]))
      \<and> map_option c_handshake_mgr (connectors w' (gpr_malloc_result env)) =
           (if subchannel_refs_taken env = 0 then None
            else Some (handshake_manager_create_result env))
      \<and> map_option c_refs (connectors w' (gpr_malloc_result env)) =
           (if subchannel_refs_taken env = 0 then None
            else Some (int (subchannel_refs_taken env)))"
proof -
  let ?c = "gpr_malloc_result env"
  let ?mgr = "handshake_manager_create_result env"
  let ?c4 = "zero_connector\<lparr>c_base_vtable := Some Connector_vtable, c_refs := 1,
                             c_handshake_mgr := ?mgr\<rparr>"
  let ?w2 = "put_connector ?c ?c4 (grpc_handshake_manager_create ?mgr w)"
  let ?w3 = "case http_proxy_server env of
               None \<Rightarrow> ?w2
             | Some proxy_name \<Rightarrow>
                 call (GprFreeString proxy_name)
                   (grpc_handshake_manager_add ?mgr
                      (HttpConnectHandshaker proxy_name (server_name args))
                      (call (HttpConnectHandshakerCreate proxy_name (server_name args)) ?w2))"
  let ?w4 = "call (SubchannelCreate ?c args) ?w3"
  have built: "connectors ?w4 ?c = Some ?c4"
    by (simp add: call_def put_connector_def grpc_handshake_manager_create_def
        grpc_handshake_manager_add_def split: option.splits)
  have vt: "c_base_vtable ?c4 = Some Connector_vtable"
    by simp
  have taken: "subchannel_takes_refs (subchannel_refs_taken env) ?w4 ?c =
                 Inr (?w4\<lparr>connectors := (connectors ?w4)(?c \<mapsto>
                              ?c4\<lparr>c_refs := c_refs ?c4 + int (subchannel_refs_taken env)\<rparr>),
                          trace := trace ?w4 @
                            replicate (subchannel_refs_taken env) (GprRef ?c)\<rparr>)"
    using assms built vt by (rule subchannel_takes_refs_result)
  show ?thesis
  proof (cases "http_proxy_server env")
    case None
    with assms taken show ?thesis
      by (simp add: client_channel_factory_create_subchannel_def grpc_connector_unref_def
          connector_unref_def grpc_handshake_manager_create_def zero_connector_def store_defs)
  next
    case (Some proxy)
    with assms taken show ?thesis
      by (simp add: client_channel_factory_create_subchannel_def grpc_connector_unref_def
          connector_unref_def grpc_handshake_manager_create_def grpc_handshake_manager_add_def
          zero_connector_def store_defs)
  qed
qed

theorem create_subchannel_handshake_pipeline_witness:
  "gpr_malloc_result ex_factory_env \<noteq> NULL
   \<and> (\<exists>w'. client_channel_factory_create_subchannel ex_factory_env ex_empty_world 30
              ex_subchannel_args = Inr (20, w')
        \<and> trace w' = [HandshakeManagerCreate 5,
                       HttpConnectHandshakerCreate ''proxy:3128'' ''server:443'',
                       HandshakeManagerAdd 5 (HttpConnectHandshaker ''proxy:3128'' ''server:443''),
                       GprFreeString ''proxy:3128'',
                       SubchannelCreate 1 ex_subchannel_args, GprRef 1, GprUnref 1]
        \<and> managers w' 5 = Some [HttpConnectHandshaker ''proxy:3128'' ''server:443'']
        \<and> map_option c_refs (connectors w' 1) = Some 1)
   \<and> (\<exists>w'. client_channel_factory_create_subchannel
              (ex_factory_env\<lparr>http_proxy_server := None\<rparr>) ex_empty_world 30
              ex_subchannel_args = Inr (20, w')
        \<and> trace w' = [HandshakeManagerCreate 5, SubchannelCreate 1 ex_subchannel_args,
                       GprRef 1, GprUnref 1]
        \<and> managers w' 5 = Some [])
   \<and> (\<exists>w'. client_channel_factory_create_subchannel
              (ex_factory_env\<lparr>subchannel_refs_taken := 0\<rparr>) ex_empty_world 30
              ex_subchannel_args = Inr (20, w')
        \<and> trace w' = [HandshakeManagerCreate 5,
                       HttpConnectHandshakerCreate ''proxy:3128'' ''server:443'',
                       HandshakeManagerAdd 5 (HttpConnectHandshaker ''proxy:3128'' ''server:443''),
                       GprFreeString ''proxy:3128'',
                       SubchannelCreate 1 ex_subchannel_args, GprUnref 1,
                       HandshakeManagerDestroy 5, GprFree 1]
        \<and> managers w' 5 = None)"
  using create_subchannel_handshake_pipeline
          [of ex_factory_env ex_empty_world 30 ex_subchannel_args]
        create_subchannel_handshake_pipeline
          [of "ex_factory_env\<lparr>http_proxy_server := None\<rparr>" ex_empty_world 30 ex_subchannel_args]
        create_subchannel_handshake_pipeline
          [of "ex_factory_env\<lparr>subchannel_refs_taken := 0\<rparr>" ex_empty_world 30
              ex_subchannel_args]
  by (auto simp add: store_defs base_defs ex_factory_env_def ex_empty_world_def
      ex_subchannel_args_def)

text \<open>
  Claim C10: the pointer vtable attached to the factory entry of the options bag neither
  duplicates nor frees the factory: its copy returns the pointer it is given, its destroy
  changes nothing, and its compare is negative, zero or positive exactly as the first
  address is below, equal to or above the second. A copy of an options-bag entry that
  carries this vtable is the entry itself, however often it is copied, and it is the
  entry a bag extended with it ends with: every copy of the bag points to the one
  factory.
\<close>

theorem cc_factory_arg_vtable_aliases:
  "cc_factory_arg_copy p = p
   \<and> cc_factory_arg_destroy p w = w
   \<and> (cc_factory_arg_cmp p q < 0) = (p < q)
   \<and> (cc_factory_arg_cmp p q = 0) = (p = q)
   \<and> (0 < cc_factory_arg_cmp p q) = (q < p)
   \<and> vt_copy cc_factory_arg_vtable = cc_factory_arg_copy
   \<and> vt_destroy cc_factory_arg_vtable = cc_factory_arg_destroy
   \<and> vt_cmp cc_factory_arg_vtable = cc_factory_arg_cmp
   \<and> copy_arg (a\<lparr>arg_value := Value_pointer p cc_factory_arg_vtable\<rparr>)
       = a\<lparr>arg_value := Value_pointer p cc_factory_arg_vtable\<rparr>
   \<and> (copy_arg ^^ n) (a\<lparr>arg_value := Value_pointer p cc_factory_arg_vtable\<rparr>)
       = a\<lparr>arg_value := Value_pointer p cc_factory_arg_vtable\<rparr>
   \<and> last (grpc_channel_args_copy_and_add bag
              [a\<lparr>arg_value := Value_pointer p cc_factory_arg_vtable\<rparr>])
       = a\<lparr>arg_value := Value_pointer p cc_factory_arg_vtable\<rparr>"
proof -
  have cmp: "(cc_factory_arg_cmp p q < 0) = (p < q)" "(cc_factory_arg_cmp p q = 0) = (p = q)"
    "(0 < cc_factory_arg_cmp p q) = (q < p)"
    by (auto simp add: cc_factory_arg_cmp_def)
  have entry: "copy_arg (a\<lparr>arg_value := Value_pointer p cc_factory_arg_vtable\<rparr>)
       = a\<lparr>arg_value := Value_pointer p cc_factory_arg_vtable\<rparr>"
    by (simp add: copy_arg_def cc_factory_arg_vtable_def cc_factory_arg_copy_def)
  have again: "(copy_arg ^^ n) (a\<lparr>arg_value := Value_pointer p cc_factory_arg_vtable\<rparr>)
       = a\<lparr>arg_value := Value_pointer p cc_factory_arg_vtable\<rparr>"
    by (induction n) (simp_all add: entry)
  have in_bag: "last (grpc_channel_args_copy_and_add bag
              [a\<lparr>arg_value := Value_pointer p cc_factory_arg_vtable\<rparr>])
       = a\<lparr>arg_value := Value_pointer p cc_factory_arg_vtable\<rparr>"
    by (simp add: grpc_channel_args_copy_and_add_def entry)
  show ?thesis
    using cmp entry again in_bag
    by (simp add: cc_factory_arg_copy_def cc_factory_arg_destroy_def cc_factory_arg_vtable_def)
qed

subsection \<open>The public entry point\<close>

text \<open>
  Claim C6: for every target and options bag, \<open>grpc_insecure_channel_create\<close> never
  returns a null channel: it returns the channel \<^verbatim>\<open>grpc_channel_create\<close> built, or,
  when that is null, a lame channel created for the target with the internal-error
  status and the message "Failed to create client channel". It returns whenever its
  \<open>reserved\<close> argument is null, and fails its assertion otherwise.
\<close>

theorem insecure_channel_create_never_null:
  "(\<forall>calls. grpc_insecure_channel_create create factory target args reserved
              \<noteq> Inr (None, calls))
   \<and> ((grpc_insecure_channel_create create factory target args reserved = Inl AssertionFailed)
        = (reserved \<noteq> NULL))
   \<and> (reserved = NULL \<longrightarrow>
        (\<exists>ch calls. grpc_insecure_channel_create create factory target args reserved
                      = Inr (Some ch, calls)
           \<and> (case create target
                     (grpc_channel_args_copy_and_add args
                        [\<lparr>arg_type = GRPC_ARG_STRING, arg_key = GRPC_ARG_SERVER_URI,
                          arg_value = Value_string target\<rparr>,
                         \<lparr>arg_type = GRPC_ARG_POINTER,
                          arg_key = GRPC_ARG_CLIENT_CHANNEL_FACTORY,
                          arg_value = Value_pointer factory cc_factory_arg_vtable\<rparr>])
                     GRPC_CLIENT_CHANNEL NULL of
                None \<Rightarrow>
                  ch = Lame_channel target GRPC_STATUS_INTERNAL ''Failed to create client channel''
                  \<and> last calls = Lame_client_channel_create target GRPC_STATUS_INTERNAL
                                   ''Failed to create client channel''
              | Some made \<Rightarrow> ch = made)))"
proof (cases "reserved = NULL")
  case True
  show ?thesis
  proof (cases "create target
                     (grpc_channel_args_copy_and_add args
                        [\<lparr>arg_type = GRPC_ARG_STRING, arg_key = GRPC_ARG_SERVER_URI,
                          arg_value = Value_string target\<rparr>,
                         \<lparr>arg_type = GRPC_ARG_POINTER,
                          arg_key = GRPC_ARG_CLIENT_CHANNEL_FACTORY,
                          arg_value = Value_pointer factory cc_factory_arg_vtable\<rparr>])
                     GRPC_CLIENT_CHANNEL NULL")
    case None
    with True show ?thesis
      by (simp add: grpc_insecure_channel_create_def client_channel_factory_create_channel_def
          grpc_lame_client_channel_create_def Let_def)
  next
    case (Some made)
    with True show ?thesis
      by (simp add: grpc_insecure_channel_create_def client_channel_factory_create_channel_def
          Let_def)
  qed
next
  case False
  then show ?thesis
    by (simp add: grpc_insecure_channel_create_def)
qed

theorem insecure_channel_create_never_null_witness:
  "(0::ptr) = NULL
   \<and> (\<exists>calls. grpc_insecure_channel_create ex_no_channel 40 ''unresolvable'' [] 0
         = Inr (Some (Lame_channel ''unresolvable'' GRPC_STATUS_INTERNAL
                        ''Failed to create client channel''), calls))
   \<and> (\<exists>calls. grpc_insecure_channel_create (\<lambda>t a s tr. Some (Channel 50)) 40 ''localhost:1'' [] 0
         = Inr (Some (Channel 50), calls))
   \<and> grpc_insecure_channel_create ex_no_channel 40 ''unresolvable'' [] 60 = Inl AssertionFailed"
  using insecure_channel_create_never_null [of ex_no_channel 40 "''unresolvable''" "[]" 0]
        insecure_channel_create_never_null
          [of "\<lambda>t a s tr. Some (Channel 50)" 40 "''localhost:1''" "[]" 0]
        insecure_channel_create_never_null [of ex_no_channel 40 "''unresolvable''" "[]" 60]
  by (auto simp add: NULL_def ex_no_channel_def)

end
